theory Spec2Isabelle
  imports Complex_Main
begin

section \<open>Data model\<close>

text \<open>
  The entities of \<^verbatim>\<open>backend/src/entities\<close> as records, their enums as datatypes. Field
  names carry the entity as a prefix because two records of one theory cannot share a
  field name.

  A JavaScript \<^verbatim>\<open>number\<close> is the real it denotes; the binary rounding of floating point
  is not modelled. A \<^verbatim>\<open>Date\<close> is its time value, the milliseconds since the epoch.

  Every id column of the schema has the type \<^verbatim>\<open>UUID\<close>, so a stored id is a UUID value
  (\<open>uuid\<close>). A string that a caller passes as an id is modelled by what the database
  makes of it: the UUID it spells, or a string that spells none. The id of the
  authenticated user is the id of the user row that \<^verbatim>\<open>AuthService.validateUser\<close> has
  loaded, a \<open>uuid\<close>. In the same way a date string of a request is the instant it spells as
  an ISO-8601 date-time, or a string that Prisma does not take as one.
\<close>

type_synonym uuid = nat

datatype IdString = UuidString uuid | OtherString string

type_synonym Date = int

datatype DateInput = IsoDateTime Date | OtherDateString string

datatype AccountType = CHECKING | SAVINGS | CREDIT | CASH

datatype Currency = RSD | EUR | USD

datatype TransactionType = INCOME | EXPENSE | TRANSFER

record Account =
  acc_id :: uuid
  acc_userId :: uuid
  acc_name :: string
  acc_accountType :: AccountType
  acc_currency :: Currency
  acc_balance :: real
  acc_bankName :: "string option"
  acc_accountNumber :: "string option"
  acc_isActive :: bool
  acc_createdAt :: Date
  acc_updatedAt :: Date

record Transaction =
  tx_id :: uuid
  tx_userId :: uuid
  tx_accountId :: uuid
  tx_categoryId :: "uuid option"
  tx_type :: TransactionType
  tx_amount :: real
  tx_description :: string
  tx_transactionDate :: Date
  tx_createdAt :: Date
  tx_updatedAt :: Date
  tx_toAccountId :: "uuid option"
  tx_fromAccountId :: "uuid option"

text \<open>The \<^verbatim>\<open>type\<close> column of a category is text; the entity casts it to its enum.\<close>

record Category =
  cat_id :: uuid
  cat_userId :: uuid
  cat_name :: string
  cat_type :: string
  cat_icon :: "string option"
  cat_color :: "string option"
  cat_isActive :: bool
  cat_createdAt :: Date
  cat_updatedAt :: Date

text \<open>The request objects of the \<^verbatim>\<open>dto\<close> files; an optional property is an
  \<^typ>\<open>'a option\<close>.\<close>

record CreateTransactionDto =
  dto_accountId :: IdString
  dto_categoryId :: "IdString option"
  dto_type :: TransactionType
  dto_amount :: real
  dto_description :: string
  dto_transactionDate :: "DateInput option"
  dto_toAccountId :: "IdString option"

record UpdateTransactionDto =
  upd_categoryId :: "IdString option"
  upd_description :: "string option"
  upd_transactionDate :: "DateInput option"



text \<open>
  The data objects of \<^verbatim>\<open>repositories/types\<close>. \<^verbatim>\<open>UpdateAccountData\<close> adds \<^verbatim>\<open>isActive\<close> to
  the properties of \<^verbatim>\<open>UpdateAccountDto\<close>. In \<^verbatim>\<open>Partial<CreateCategoryData>\<close> every
  property can be absent, and the icon and the colour can be \<^verbatim>\<open>null\<close>.
\<close>

record CreateTransactionData =
  ctd_userId :: uuid
  ctd_accountId :: IdString
  ctd_categoryId :: "IdString option"
  ctd_type :: TransactionType
  ctd_amount :: real
  ctd_description :: string
  ctd_transactionDate :: DateInput
  ctd_toAccountId :: "IdString option"
  ctd_fromAccountId :: "IdString option"



text \<open>
  The store behind Prisma: one list of rows per table, in insertion order. The users table
  is not modelled: a user id is taken to be the id of a user row, so the foreign keys into
  that table hold.
\<close>

record Database =
  accounts :: "Account list"
  transactions :: "Transaction list"
  categories :: "Category list"

text \<open>
  What a call can throw: the three HTTP exceptions the services raise, the plain
  \<^verbatim>\<open>Error\<close> of the entity, and the errors of Prisma: a request the database refuses
  (\<^verbatim>\<open>P2002\<close> unique constraint, \<^verbatim>\<open>P2003\<close> foreign key, \<^verbatim>\<open>P2020\<close> value out of range,
  \<^verbatim>\<open>P2023\<close> a string that is no UUID) and an argument the client refuses.
\<close>

datatype exn =
    NotFoundException string
  | ForbiddenException string
  | BadRequestException string
  | Error string
  | PrismaClientKnownRequestError string
  | PrismaClientValidationError string

section \<open>Decimal columns\<close>

text \<open>
  \<^verbatim>\<open>balance\<close> is \<^verbatim>\<open>DECIMAL(15,2)\<close> and \<^verbatim>\<open>amount\<close> is \<^verbatim>\<open>DECIMAL(10,2)\<close>. PostgreSQL rounds a
  value written to such a column to two decimals, ties away from zero, and refuses it
  when the rounded value needs more than the column's digits before the point.
\<close>

definition roundHalfAway :: "real \<Rightarrow> int" where
  "roundHalfAway x = (if 0 \<le> x then \<lfloor>x + 1 / 2\<rfloor> else - \<lfloor>- x + 1 / 2\<rfloor>)"

definition toScale2 :: "real \<Rightarrow> real" where
  "toScale2 x = of_int (roundHalfAway (x * 100)) / 100"

definition fitsDecimal :: "nat \<Rightarrow> real \<Rightarrow> bool" where
  "fitsDecimal p x = (\<bar>toScale2 x\<bar> < 10 ^ (p - 2))"

section \<open>Entities\<close>

definition getBalance :: "Account \<Rightarrow> real" where
  "getBalance a = acc_balance a"

definition account_isOwnedBy :: "Account \<Rightarrow> uuid \<Rightarrow> bool" where
  "account_isOwnedBy a userId = (acc_userId a = userId)"

text \<open>\<^verbatim>\<open>Account.updateBalance\<close>: the entity's guard on a new balance; the rebuilt object
  carries the new balance and a new \<^verbatim>\<open>updatedAt\<close>.\<close>

definition account_updateBalance :: "Date \<Rightarrow> Account \<Rightarrow> real \<Rightarrow> exn + Account" where
  "account_updateBalance now a newBalance =
     (if newBalance < 0 \<and> acc_accountType a \<noteq> CREDIT
      then Inl (Error ''Non-credit accounts cannot have negative balance'')
      else Inr (a\<lparr>acc_balance := newBalance, acc_updatedAt := now\<rparr>))"

definition transaction_isOwnedBy :: "Transaction \<Rightarrow> uuid \<Rightarrow> bool" where
  "transaction_isOwnedBy t userId = (tx_userId t = userId)"

definition isExpense :: "Transaction \<Rightarrow> bool" where
  "isExpense t = (tx_type t = EXPENSE)"

definition isIncome :: "Transaction \<Rightarrow> bool" where
  "isIncome t = (tx_type t = INCOME)"

definition isTransfer :: "Transaction \<Rightarrow> bool" where
  "isTransfer t = (tx_type t = TRANSFER)"



definition orNullId :: "IdString option \<Rightarrow> IdString option" where
  "orNullId x =
     (case x of
        None \<Rightarrow> None
      | Some i \<Rightarrow>
          (case i of
             UuidString u \<Rightarrow> Some (UuidString u)
           | OtherString s \<Rightarrow> if s = [] then None else Some (OtherString s)))"

text \<open>\<^verbatim>\<open>Transaction.create\<close>; \<open>now\<close> is the value of \<^verbatim>\<open>new Date()\<close>.\<close>

definition Transaction_create ::
  "Date \<Rightarrow> uuid \<Rightarrow> IdString \<Rightarrow> TransactionType \<Rightarrow> real \<Rightarrow> string \<Rightarrow> IdString option
     \<Rightarrow> DateInput option \<Rightarrow> IdString option \<Rightarrow> CreateTransactionData" where
  "Transaction_create now userId accountId type amount description categoryId
       transactionDate toAccountId =
     \<lparr> ctd_userId = userId,
       ctd_accountId = accountId,
       ctd_categoryId = orNullId categoryId,
       ctd_type = type,
       ctd_amount = amount,
       ctd_description = description,
       ctd_transactionDate =
         (case transactionDate of
            None \<Rightarrow> IsoDateTime now
          | Some d \<Rightarrow>
              (case d of
                 IsoDateTime t \<Rightarrow> IsoDateTime t
               | OtherDateString s \<Rightarrow> if s = [] then IsoDateTime now else OtherDateString s)),
       ctd_toAccountId = (if type = TRANSFER then orNullId toAccountId else None),
       ctd_fromAccountId = (if type = TRANSFER then Some accountId else None) \<rparr>"

section \<open>Repositories\<close>

text \<open>The row with a given id (the primary key makes it the only one).\<close>

definition accountRow :: "Database \<Rightarrow> uuid \<Rightarrow> Account option" where
  "accountRow db u = find (\<lambda>a. acc_id a = u) (accounts db)"

definition transactionRow :: "Database \<Rightarrow> uuid \<Rightarrow> Transaction option" where
  "transactionRow db u = find (\<lambda>t. tx_id t = u) (transactions db)"

definition categoryRow :: "Database \<Rightarrow> uuid \<Rightarrow> Category option" where
  "categoryRow db u = find (\<lambda>c. cat_id c = u) (categories db)"

text \<open>
  \<^verbatim>\<open>findById\<close> is \<^verbatim>\<open>findUnique({ where: { id } })\<close> with no \<^verbatim>\<open>catch\<close>: an id that is no
  UUID makes Prisma throw.
\<close>

definition accountRepo_findById :: "Database \<Rightarrow> IdString \<Rightarrow> exn + Account option" where
  "accountRepo_findById db i =
     (case i of
        OtherString _ \<Rightarrow> Inl (PrismaClientKnownRequestError ''P2023'')
      | UuidString u \<Rightarrow> Inr (accountRow db u))"

definition transactionRepo_findById :: "Database \<Rightarrow> IdString \<Rightarrow> exn + Transaction option" where
  "transactionRepo_findById db i =
     (case i of
        OtherString _ \<Rightarrow> Inl (PrismaClientKnownRequestError ''P2023'')
      | UuidString u \<Rightarrow> Inr (transactionRow db u))"

definition categoryRepo_findById :: "Database \<Rightarrow> IdString \<Rightarrow> exn + Category option" where
  "categoryRepo_findById db i =
     (case i of
        OtherString _ \<Rightarrow> Inl (PrismaClientKnownRequestError ''P2023'')
      | UuidString u \<Rightarrow> Inr (categoryRow db u))"

definition setBalanceRow :: "Date \<Rightarrow> uuid \<Rightarrow> real \<Rightarrow> Account \<Rightarrow> Account" where
  "setBalanceRow now u stored r =
     (if acc_id r = u then r\<lparr>acc_balance := stored, acc_updatedAt := now\<rparr> else r)"

text \<open>
  \<^verbatim>\<open>PrismaAccountRepository.updateBalance\<close>: the \<^verbatim>\<open>catch\<close> turns every failure of the
  update into \<^verbatim>\<open>null\<close>: an id that is no UUID, no row with the id, a new balance that
  does not fit \<^verbatim>\<open>DECIMAL(15,2)\<close>. Otherwise the column takes the new balance, rounded. No
  check of the sign of the new balance is made here.
\<close>

definition accountRepo_updateBalance ::
  "Date \<Rightarrow> IdString \<Rightarrow> real \<Rightarrow> Database \<Rightarrow> Account option \<times> Database" where
  "accountRepo_updateBalance now i newBalance db =
     (case i of
        OtherString _ \<Rightarrow> (None, db)
      | UuidString u \<Rightarrow>
          (case accountRow db u of
             None \<Rightarrow> (None, db)
           | Some a \<Rightarrow>
               if \<not> fitsDecimal 15 newBalance then (None, db)
               else
                 (Some (setBalanceRow now u (toScale2 newBalance) a),
                  db\<lparr>accounts := map (setBalanceRow now u (toScale2 newBalance)) (accounts db)\<rparr>)))"



text \<open>
  \<^verbatim>\<open>existsByUserIdAndName\<close> of the accounts: a count with no \<^verbatim>\<open>catch\<close>; the condition on
  \<^verbatim>\<open>excludeId\<close> is there when that string is truthy.
\<close>

definition accountRepo_existsByUserIdAndName ::
  "Database \<Rightarrow> uuid \<Rightarrow> string \<Rightarrow> IdString option \<Rightarrow> exn + bool" where
  "accountRepo_existsByUserIdAndName db userId name excludeId =
     (case orNullId excludeId of
        None \<Rightarrow>
          Inr (list_ex (\<lambda>a. acc_userId a = userId \<and> acc_name a = name \<and> acc_isActive a)
                 (accounts db))
      | Some i \<Rightarrow>
          (case i of
             OtherString _ \<Rightarrow> Inl (PrismaClientKnownRequestError ''P2023'')
           | UuidString x \<Rightarrow>
               Inr (list_ex (\<lambda>a. acc_userId a = userId \<and> acc_name a = name \<and> acc_isActive a
                                 \<and> acc_id a \<noteq> x)
                      (accounts db))))"

text \<open>
  The ids of an insert or update as the database reads them: \<open>None\<close> when a string is no
  UUID. The same for an optional date.
\<close>

definition uuidOf :: "IdString option \<Rightarrow> (uuid option) option" where
  "uuidOf x =
     (case x of
        None \<Rightarrow> Some None
      | Some i \<Rightarrow> (case i of UuidString u \<Rightarrow> Some (Some u) | OtherString _ \<Rightarrow> None))"

definition dateOf :: "DateInput option \<Rightarrow> (Date option) option" where
  "dateOf x =
     (case x of
        None \<Rightarrow> Some None
      | Some d \<Rightarrow> (case d of IsoDateTime t \<Rightarrow> Some (Some t) | OtherDateString _ \<Rightarrow> None))"

text \<open>
  The transaction row that an insert builds from the data, if the date is a date-time and
  every id in the data is a UUID: the amount is rounded by its column, and the database
  stamps \<^verbatim>\<open>createdAt\<close> and \<^verbatim>\<open>updatedAt\<close>.
\<close>

definition createdRow :: "uuid \<Rightarrow> Date \<Rightarrow> CreateTransactionData \<Rightarrow> Transaction option" where
  "createdRow newId now d =
     (case ctd_transactionDate d of
        OtherDateString _ \<Rightarrow> None
      | IsoDateTime date \<Rightarrow>
          (case ctd_accountId d of
             OtherString _ \<Rightarrow> None
           | UuidString accountId \<Rightarrow>
               (case uuidOf (ctd_categoryId d) of
                  None \<Rightarrow> None
                | Some categoryId \<Rightarrow>
                    (case uuidOf (ctd_toAccountId d) of
                       None \<Rightarrow> None
                     | Some toAccountId \<Rightarrow>
                         (case uuidOf (ctd_fromAccountId d) of
                            None \<Rightarrow> None
                          | Some fromAccountId \<Rightarrow>
                              Some \<lparr> tx_id = newId,
                                     tx_userId = ctd_userId d,
                                     tx_accountId = accountId,
                                     tx_categoryId = categoryId,
                                     tx_type = ctd_type d,
                                     tx_amount = toScale2 (ctd_amount d),
                                     tx_description = ctd_description d,
                                     tx_transactionDate = date,
                                     tx_createdAt = now,
                                     tx_updatedAt = now,
                                     tx_toAccountId = toAccountId,
                                     tx_fromAccountId = fromAccountId \<rparr>)))))"

text \<open>
  \<^verbatim>\<open>PrismaTransactionRepository.save\<close>: one insert, with no \<^verbatim>\<open>catch\<close>. \<open>newId\<close> is the
  UUID the database gives the row. The insert is refused, and Prisma throws, when the
  date is not a date-time, when an id is no UUID, when the amount does not fit
  \<^verbatim>\<open>DECIMAL(10,2)\<close>, and when a constraint of the migration is violated: the primary key
  \<^verbatim>\<open>Transaction_pkey\<close>, the foreign key \<^verbatim>\<open>Transaction_accountId_fkey\<close> into accounts, the
  foreign key \<^verbatim>\<open>Transaction_categoryId_fkey\<close> into categories. \<^verbatim>\<open>toAccountId\<close> and
  \<^verbatim>\<open>fromAccountId\<close> have no foreign key.
\<close>

definition insertRefusal :: "uuid \<Rightarrow> Date \<Rightarrow> CreateTransactionData \<Rightarrow> Database \<Rightarrow> exn option" where
  "insertRefusal newId now d db =
     (case ctd_transactionDate d of
        OtherDateString _ \<Rightarrow> Some (PrismaClientValidationError ''Expected ISO-8601 DateTime'')
      | IsoDateTime _ \<Rightarrow>
          (case createdRow newId now d of
             None \<Rightarrow> Some (PrismaClientKnownRequestError ''P2023'')
           | Some row \<Rightarrow>
               if \<not> fitsDecimal 10 (ctd_amount d)
               then Some (PrismaClientKnownRequestError ''P2020'')
               else if transactionRow db newId \<noteq> None
               then Some (PrismaClientKnownRequestError ''P2002'')
               else if accountRow db (tx_accountId row) = None
               then Some (PrismaClientKnownRequestError ''P2003'')
               else if (case tx_categoryId row of None \<Rightarrow> False
                        | Some c \<Rightarrow> categoryRow db c = None)
               then Some (PrismaClientKnownRequestError ''P2003'')
               else None))"

definition transactionRepo_save ::
  "uuid \<Rightarrow> Date \<Rightarrow> CreateTransactionData \<Rightarrow> Database \<Rightarrow> (exn + Transaction) \<times> Database" where
  "transactionRepo_save newId now d db =
     (case insertRefusal newId now d db of
        Some e \<Rightarrow> (Inl e, db)
      | None \<Rightarrow>
          (case createdRow newId now d of
             None \<Rightarrow> (Inl (PrismaClientKnownRequestError ''P2023''), db)
           | Some row \<Rightarrow> (Inr row, db\<lparr>transactions := transactions db @ [row]\<rparr>)))"

text \<open>\<^verbatim>\<open>PrismaTransactionRepository.delete\<close>: \<^verbatim>\<open>false\<close> when the delete throws, for an id
  that is no UUID or that no row has.\<close>

definition transactionRepo_delete :: "IdString \<Rightarrow> Database \<Rightarrow> bool \<times> Database" where
  "transactionRepo_delete i db =
     (case i of
        OtherString _ \<Rightarrow> (False, db)
      | UuidString u \<Rightarrow>
          if transactionRow db u = None then (False, db)
          else (True, db\<lparr>transactions := filter (\<lambda>t. tx_id t \<noteq> u) (transactions db)\<rparr>))"

text \<open>
  \<^verbatim>\<open>PrismaTransactionRepository.update\<close> writes \<^verbatim>\<open>{ ...data, updatedAt: new Date() }\<close>: a
  property that is absent from \<open>data\<close> leaves its column alone. The update throws when
  the id or the new \<^verbatim>\<open>categoryId\<close> is no UUID, when the new date is no date-time, when no
  row has the id and when the new \<^verbatim>\<open>categoryId\<close> breaks the foreign key; the \<^verbatim>\<open>catch\<close>
  returns \<^verbatim>\<open>null\<close> for all of them.
\<close>

definition patchRow ::
  "Date \<Rightarrow> uuid \<Rightarrow> uuid option \<Rightarrow> string option \<Rightarrow> Date option \<Rightarrow> Transaction \<Rightarrow> Transaction" where
  "patchRow now u categoryId description transactionDate r =
     (if tx_id r = u
      then r\<lparr> tx_categoryId := (case categoryId of None \<Rightarrow> tx_categoryId r | Some c \<Rightarrow> Some c),
              tx_description := (case description of None \<Rightarrow> tx_description r | Some x \<Rightarrow> x),
              tx_transactionDate :=
                (case transactionDate of None \<Rightarrow> tx_transactionDate r | Some x \<Rightarrow> x),
              tx_updatedAt := now \<rparr>
      else r)"

definition transactionRepo_update ::
  "Date \<Rightarrow> IdString \<Rightarrow> UpdateTransactionDto \<Rightarrow> Database \<Rightarrow> Transaction option \<times> Database" where
  "transactionRepo_update now i d db =
     (case i of
        OtherString _ \<Rightarrow> (None, db)
      | UuidString u \<Rightarrow>
          (case uuidOf (upd_categoryId d) of
             None \<Rightarrow> (None, db)
           | Some categoryId \<Rightarrow>
               (case dateOf (upd_transactionDate d) of
                  None \<Rightarrow> (None, db)
                | Some transactionDate \<Rightarrow>
                    (case transactionRow db u of
                       None \<Rightarrow> (None, db)
                     | Some t \<Rightarrow>
                         if (case categoryId of None \<Rightarrow> False
                             | Some c \<Rightarrow> categoryRow db c = None)
                         then (None, db)
                         else
                           (Some (patchRow now u categoryId (upd_description d)
                                    transactionDate t),
                            db\<lparr>transactions :=
                                 map (patchRow now u categoryId (upd_description d)
                                        transactionDate)
                                   (transactions db)\<rparr>)))))"






text \<open>
  \<^verbatim>\<open>existsByUserIdAndName\<close> of the categories compares the names with
  \<^verbatim>\<open>mode: 'insensitive'\<close>; the letters A to Z are folded here.
\<close>

definition lowerChar :: "char \<Rightarrow> char" where
  "lowerChar c =
     (if 65 \<le> (of_char c :: nat) \<and> (of_char c :: nat) \<le> 90
      then char_of ((of_char c :: nat) + 32) else c)"

definition equalsInsensitive :: "string \<Rightarrow> string \<Rightarrow> bool" where
  "equalsInsensitive a b = (map lowerChar a = map lowerChar b)"

definition categoryRepo_existsByUserIdAndName ::
  "Database \<Rightarrow> uuid \<Rightarrow> string \<Rightarrow> IdString option \<Rightarrow> exn + bool" where
  "categoryRepo_existsByUserIdAndName db userId name excludeId =
     (case orNullId excludeId of
        None \<Rightarrow>
          Inr (list_ex (\<lambda>c. cat_userId c = userId \<and> equalsInsensitive (cat_name c) name
                            \<and> cat_isActive c)
                 (categories db))
      | Some i \<Rightarrow>
          (case i of
             OtherString _ \<Rightarrow> Inl (PrismaClientKnownRequestError ''P2023'')
           | UuidString x \<Rightarrow>
               Inr (list_ex (\<lambda>c. cat_userId c = userId \<and> equalsInsensitive (cat_name c) name
                                 \<and> cat_isActive c \<and> cat_id c \<noteq> x)
                      (categories db))))"

section \<open>TransactionService\<close>

text \<open>
  \<^verbatim>\<open>createTransaction\<close>. A call returns its result, a thrown exception as \<open>Inl\<close>, together
  with the store it leaves: a throw after a write leaves the write in place. \<open>newId\<close> and
  \<open>now\<close> are what the database and the clock supply during the call; every
  \<^verbatim>\<open>new Date()\<close> of one call reads the same \<open>now\<close>. The results of \<^verbatim>\<open>updateBalance\<close> are
  not looked at.
\<close>

definition createTransaction ::
  "uuid \<Rightarrow> Date \<Rightarrow> uuid \<Rightarrow> CreateTransactionDto \<Rightarrow> Database
     \<Rightarrow> (exn + Transaction) \<times> Database" where
  "createTransaction newId now userId dto db =
     (case accountRepo_findById db (dto_accountId dto) of
        Inl e \<Rightarrow> (Inl e, db)
      | Inr found \<Rightarrow>
          (case found of
             None \<Rightarrow> (Inl (ForbiddenException ''Access denied to this account''), db)
           | Some account \<Rightarrow>
               if \<not> account_isOwnedBy account userId
               then (Inl (ForbiddenException ''Access denied to this account''), db)
               else
                 (let balances =
                    (if dto_type dto = TRANSFER then
                       (case orNullId (dto_toAccountId dto) of
                          None \<Rightarrow>
                            Inl (BadRequestException ''Destination account required for transfers'')
                        | Some toAccountId \<Rightarrow>
                            (case accountRepo_findById db toAccountId of
                               Inl e \<Rightarrow> Inl e
                             | Inr toFound \<Rightarrow>
                                 (case toFound of
                                    None \<Rightarrow>
                                      Inl (ForbiddenException
                                             ''Access denied to destination account'')
                                  | Some toAccount \<Rightarrow>
                                      if \<not> account_isOwnedBy toAccount userId
                                      then Inl (ForbiddenException
                                                  ''Access denied to destination account'')
                                      else
                                        (let db1 = snd (accountRepo_updateBalance now
                                                          (dto_accountId dto)
                                                          (getBalance account - dto_amount dto) db);
                                             db2 = snd (accountRepo_updateBalance now toAccountId
                                                          (getBalance toAccount + dto_amount dto)
                                                          db1)
                                         in Inr db2))))
                     else if dto_type dto = EXPENSE then
                       Inr (snd (accountRepo_updateBalance now (dto_accountId dto)
                                   (getBalance account - dto_amount dto) db))
                     else if dto_type dto = INCOME then
                       Inr (snd (accountRepo_updateBalance now (dto_accountId dto)
                                   (getBalance account + dto_amount dto) db))
                     else Inr db)
                  in case balances of
                       Inl e \<Rightarrow> (Inl e, db)
                     | Inr db' \<Rightarrow>
                         transactionRepo_save newId now
                           (Transaction_create now userId (dto_accountId dto) (dto_type dto)
                              (dto_amount dto) (dto_description dto) (dto_categoryId dto)
                              (dto_transactionDate dto) (dto_toAccountId dto))
                           db')))"

text \<open>\<^verbatim>\<open>getTransaction\<close>: the row must exist, then it must be the caller's.\<close>

definition getTransaction :: "Database \<Rightarrow> IdString \<Rightarrow> uuid \<Rightarrow> exn + Transaction" where
  "getTransaction db i userId =
     (case transactionRepo_findById db i of
        Inl e \<Rightarrow> Inl e
      | Inr found \<Rightarrow>
          (case found of
             None \<Rightarrow> Inl (NotFoundException ''Transaction not found'')
           | Some transaction \<Rightarrow>
               if \<not> transaction_isOwnedBy transaction userId
               then Inl (ForbiddenException ''Access denied'')
               else Inr transaction))"

definition updateTransaction ::
  "Date \<Rightarrow> IdString \<Rightarrow> uuid \<Rightarrow> UpdateTransactionDto \<Rightarrow> Database
     \<Rightarrow> (exn + Transaction) \<times> Database" where
  "updateTransaction now i userId dto db =
     (case getTransaction db i userId of
        Inl e \<Rightarrow> (Inl e, db)
      | Inr _ \<Rightarrow>
          (case transactionRepo_update now i dto db of
             (None, db') \<Rightarrow> (Inl (NotFoundException ''Transaction not found''), db')
           | (Some updated, db') \<Rightarrow> (Inr updated, db')))"

text \<open>
  \<^verbatim>\<open>deleteTransaction\<close>: the balances are written back from the accounts as read at the
  start of the reversal, then the row is deleted. The accounts are looked up by the ids
  the row holds. The results of \<^verbatim>\<open>updateBalance\<close> and of \<^verbatim>\<open>delete\<close> are not looked
  at.
\<close>

definition deleteTransaction ::
  "Date \<Rightarrow> IdString \<Rightarrow> uuid \<Rightarrow> Database \<Rightarrow> (exn + unit) \<times> Database" where
  "deleteTransaction now i userId db =
     (case getTransaction db i userId of
        Inl e \<Rightarrow> (Inl e, db)
      | Inr transaction \<Rightarrow>
          (let reversal =
             (case accountRepo_findById db (UuidString (tx_accountId transaction)) of
                Inl e \<Rightarrow> Inl e
              | Inr found \<Rightarrow>
                  (case found of
                     None \<Rightarrow> Inr db
                   | Some account \<Rightarrow>
                       if isExpense transaction then
                         Inr (snd (accountRepo_updateBalance now
                                     (UuidString (tx_accountId transaction))
                                     (getBalance account + tx_amount transaction) db))
                       else if isIncome transaction then
                         Inr (snd (accountRepo_updateBalance now
                                     (UuidString (tx_accountId transaction))
                                     (getBalance account - tx_amount transaction) db))
                       else if isTransfer transaction then
                         (case tx_toAccountId transaction of
                            None \<Rightarrow> Inr db
                          | Some toAccountId \<Rightarrow>
                              (case accountRepo_findById db (UuidString toAccountId) of
                                 Inl e \<Rightarrow> Inl e
                               | Inr toFound \<Rightarrow>
                                   (case toFound of
                                      None \<Rightarrow> Inr db
                                    | Some toAccount \<Rightarrow>
                                        (let db1 = snd (accountRepo_updateBalance now
                                                     (UuidString (tx_accountId transaction))
                                                     (getBalance account + tx_amount transaction)
                                                     db)
                                         in Inr (snd (accountRepo_updateBalance now
                                                        (UuidString toAccountId)
                                                        (getBalance toAccount
                                                           - tx_amount transaction)
                                                        db1))))))
                       else Inr db))
           in case reversal of
                Inl e \<Rightarrow> (Inl e, db)
              | Inr db' \<Rightarrow> (Inr (), snd (transactionRepo_delete i db'))))"


section \<open>AccountService\<close>

definition getAccountById :: "Database \<Rightarrow> IdString \<Rightarrow> uuid \<Rightarrow> exn + Account" where
  "getAccountById db accountId userId =
     (case accountRepo_findById db accountId of
        Inl e \<Rightarrow> Inl e
      | Inr found \<Rightarrow>
          (case found of
             None \<Rightarrow> Inl (NotFoundException ''Account not found'')
           | Some account \<Rightarrow>
               if \<not> account_isOwnedBy account userId
               then Inl (ForbiddenException ''Access denied to this account'')
               else Inr account))"



text \<open>
  \<^verbatim>\<open>updateAccountBalance\<close>: the new balance goes through the entity's guard, whose
  \<^verbatim>\<open>Error\<close> becomes a \<^verbatim>\<open>BadRequestException\<close> with the same message, before the repository
  writes it.
\<close>

definition updateAccountBalance ::
  "Date \<Rightarrow> IdString \<Rightarrow> uuid \<Rightarrow> real \<Rightarrow> Database \<Rightarrow> (exn + Account) \<times> Database" where
  "updateAccountBalance now accountId userId balance db =
     (case getAccountById db accountId userId of
        Inl e \<Rightarrow> (Inl e, db)
      | Inr account \<Rightarrow>
          (case account_updateBalance now account balance of
             Inl e \<Rightarrow>
               (Inl (BadRequestException
                  (case e of Error m \<Rightarrow> m | _ \<Rightarrow> ''Invalid balance update'')), db)
           | Inr _ \<Rightarrow>
               (case accountRepo_updateBalance now accountId balance db of
                  (None, db') \<Rightarrow> (Inl (NotFoundException ''Account not found''), db')
                | (Some updatedAccount, db') \<Rightarrow> (Inr updatedAccount, db'))))"





section \<open>CategoryService\<close>






section \<open>Monthly totals\<close>






















section \<open>Observations on a store\<close>

text \<open>The stored balance of the account with a given id, if there is one.\<close>

definition balanceOf :: "Database \<Rightarrow> uuid \<Rightarrow> real option" where
  "balanceOf db u = map_option acc_balance (accountRow db u)"

text \<open>The invariant of the data model: an account that is not a credit account has a
  balance of at least zero.\<close>

definition nonNegative :: "Account \<Rightarrow> bool" where
  "nonNegative a = (acc_accountType a = CREDIT \<or> 0 \<le> acc_balance a)"

definition balanceInvariant :: "Database \<Rightarrow> bool" where
  "balanceInvariant db = list_all nonNegative (accounts db)"


text \<open>
  The frame of an update on the row with id \<open>i\<close>: a row with another id is what it was,
  and the row with that id differs from its old self at most in \<^verbatim>\<open>categoryId\<close>,
  \<^verbatim>\<open>description\<close>, \<^verbatim>\<open>transactionDate\<close> and the audit stamp \<^verbatim>\<open>updatedAt\<close>.
\<close>

definition patchOnly :: "IdString \<Rightarrow> Transaction \<Rightarrow> Transaction \<Rightarrow> bool" where
  "patchOnly i old new =
     (if UuidString (tx_id old) = i
      then new = old\<lparr> tx_categoryId := tx_categoryId new,
                      tx_description := tx_description new,
                      tx_transactionDate := tx_transactionDate new,
                      tx_updatedAt := tx_updatedAt new \<rparr>
      else new = old)"




section \<open>Example stores\<close>

text \<open>The caller is user 1. The checking account "Main" of the scenarios, at 1000.00, and
  an expense of 150.00 on it.\<close>

definition mainAccount :: Account where
  "mainAccount =
     \<lparr> acc_id = 10, acc_userId = 1, acc_name = ''Main'',
       acc_accountType = CHECKING, acc_currency = RSD, acc_balance = 1000,
       acc_bankName = None, acc_accountNumber = None, acc_isActive = True,
       acc_createdAt = 0, acc_updatedAt = 0 \<rparr>"

definition dbMain :: Database where
  "dbMain = \<lparr> accounts = [mainAccount], transactions = [], categories = [] \<rparr>"


text \<open>Two checking accounts of one owner, A at 500.00 and B at 0.00, and a transfer of
  200.00 from A to B.\<close>

definition accountA :: Account where
  "accountA =
     \<lparr> acc_id = 11, acc_userId = 1, acc_name = ''A'',
       acc_accountType = CHECKING, acc_currency = RSD, acc_balance = 500,
       acc_bankName = None, acc_accountNumber = None, acc_isActive = True,
       acc_createdAt = 0, acc_updatedAt = 0 \<rparr>"

definition accountB :: Account where
  "accountB =
     \<lparr> acc_id = 12, acc_userId = 1, acc_name = ''B'',
       acc_accountType = CHECKING, acc_currency = RSD, acc_balance = 0,
       acc_bankName = None, acc_accountNumber = None, acc_isActive = True,
       acc_createdAt = 0, acc_updatedAt = 0 \<rparr>"

definition dbAB :: Database where
  "dbAB = \<lparr> accounts = [accountA, accountB], transactions = [], categories = [] \<rparr>"

definition transfer200 :: CreateTransactionDto where
  "transfer200 =
     \<lparr> dto_accountId = UuidString 11, dto_categoryId = None, dto_type = TRANSFER,
       dto_amount = 200, dto_description = ''to B'', dto_transactionDate = None,
       dto_toAccountId = Some (UuidString 12) \<rparr>"




text \<open>A after the transfer, at 300.00, and an expense of 10000.00 on it.\<close>

definition expense10000 :: CreateTransactionDto where
  "expense10000 =
     \<lparr> dto_accountId = UuidString 11, dto_categoryId = None, dto_type = EXPENSE,
       dto_amount = 10000, dto_description = ''too much'', dto_transactionDate = None,
       dto_toAccountId = None \<rparr>"

definition dbAfterTransfer :: Database where
  "dbAfterTransfer = snd (createTransaction 101 5 1 transfer200 dbAB)"

text \<open>A cash account at 0.00 that receives 50.00, spends 50.00, and then has the income
  deleted.\<close>

definition cashAccount :: Account where
  "cashAccount =
     \<lparr> acc_id = 13, acc_userId = 1, acc_name = ''Wallet'',
       acc_accountType = CASH, acc_currency = RSD, acc_balance = 0,
       acc_bankName = None, acc_accountNumber = None, acc_isActive = True,
       acc_createdAt = 0, acc_updatedAt = 0 \<rparr>"

definition dbCash :: Database where
  "dbCash = \<lparr> accounts = [cashAccount], transactions = [], categories = [] \<rparr>"

definition income50 :: CreateTransactionDto where
  "income50 =
     \<lparr> dto_accountId = UuidString 13, dto_categoryId = None, dto_type = INCOME,
       dto_amount = 50, dto_description = ''gift'', dto_transactionDate = None,
       dto_toAccountId = None \<rparr>"

definition expense50 :: CreateTransactionDto where
  "expense50 =
     \<lparr> dto_accountId = UuidString 13, dto_categoryId = None, dto_type = EXPENSE,
       dto_amount = 50, dto_description = ''lunch'', dto_transactionDate = None,
       dto_toAccountId = None \<rparr>"

definition dbCash1 :: Database where
  "dbCash1 = snd (createTransaction 101 5 1 income50 dbCash)"

definition dbCash2 :: Database where
  "dbCash2 = snd (createTransaction 102 6 1 expense50 dbCash1)"

definition dbCash3 :: Database where
  "dbCash3 = snd (deleteTransaction 7 (UuidString 101) 1 dbCash2)"

text \<open>An expense of 10.005 on "Main", and its deletion; a transfer of 10.005 from A to B,
  and its deletion.\<close>

definition expenseThirdDecimal :: CreateTransactionDto where
  "expenseThirdDecimal =
     \<lparr> dto_accountId = UuidString 10, dto_categoryId = None, dto_type = EXPENSE,
       dto_amount = 10005 / 1000, dto_description = ''coffee'', dto_transactionDate = None,
       dto_toAccountId = None \<rparr>"

definition dbMainSpent :: Database where
  "dbMainSpent = snd (createTransaction 101 5 1 expenseThirdDecimal dbMain)"

definition dbMainRestored :: Database where
  "dbMainRestored = snd (deleteTransaction 6 (UuidString 101) 1 dbMainSpent)"

definition transferThirdDecimal :: CreateTransactionDto where
  "transferThirdDecimal =
     \<lparr> dto_accountId = UuidString 11, dto_categoryId = None, dto_type = TRANSFER,
       dto_amount = 10005 / 1000, dto_description = ''to B'', dto_transactionDate = None,
       dto_toAccountId = Some (UuidString 12) \<rparr>"

definition dbABMoved :: Database where
  "dbABMoved = snd (createTransaction 101 5 1 transferThirdDecimal dbAB)"

definition dbABRestored :: Database where
  "dbABRestored = snd (deleteTransaction 6 (UuidString 101) 1 dbABMoved)"

text \<open>The row of the transfer of 200.00, in a store that has lost account A and in one
  that has lost account B; a patch that renames it.\<close>

definition transferRow :: Transaction where
  "transferRow =
     \<lparr> tx_id = 101, tx_userId = 1, tx_accountId = 11, tx_categoryId = None,
       tx_type = TRANSFER, tx_amount = 200, tx_description = ''to B'',
       tx_transactionDate = 5, tx_createdAt = 5, tx_updatedAt = 5,
       tx_toAccountId = Some 12, tx_fromAccountId = Some 11 \<rparr>"

definition dbSourceGone :: Database where
  "dbSourceGone = \<lparr> accounts = [accountB], transactions = [transferRow], categories = [] \<rparr>"

definition dbDestinationGone :: Database where
  "dbDestinationGone = \<lparr> accounts = [accountA], transactions = [transferRow], categories = [] \<rparr>"

definition renamePatch :: UpdateTransactionDto where
  "renamePatch = \<lparr> upd_categoryId = None, upd_description = Some ''renamed'',
                   upd_transactionDate = None \<rparr>"










section \<open>Decimal columns: a value of two decimals is stored as it is\<close>

lemma roundHalfAway_of_int: "roundHalfAway (of_int n) = n"
proof -
  have "\<lfloor>(of_int n :: real) + 1 / 2\<rfloor> = n" "\<lfloor>- (of_int n :: real) + 1 / 2\<rfloor> = - n"
    by linarith+
  then show ?thesis
    by (simp add: roundHalfAway_def)
qed

lemma toScale2_hundredths: "toScale2 (of_int n / 100) = of_int n / 100"
  by (simp add: toScale2_def roundHalfAway_of_int)

lemma toScale2_idem: "toScale2 (toScale2 x) = toScale2 x"
proof -
  have "toScale2 x = of_int (roundHalfAway (x * 100)) / 100"
    by (simp add: toScale2_def)
  then show ?thesis
    by (simp only: toScale2_hundredths)
qed

section \<open>The repositories' reads and writes\<close>

lemma accountRepo_findById_Uuid [simp]:
  "accountRepo_findById db (UuidString u) = Inr (accountRow db u)"
  by (simp add: accountRepo_findById_def)

lemma accountRepo_findById_Other [simp]:
  "accountRepo_findById db (OtherString s) = Inl (PrismaClientKnownRequestError ''P2023'')"
  by (simp add: accountRepo_findById_def)

lemma transactionRepo_findById_Uuid [simp]:
  "transactionRepo_findById db (UuidString u) = Inr (transactionRow db u)"
  by (simp add: transactionRepo_findById_def)

lemma transactionRepo_findById_Other [simp]:
  "transactionRepo_findById db (OtherString s) = Inl (PrismaClientKnownRequestError ''P2023'')"
  by (simp add: transactionRepo_findById_def)

lemma categoryRepo_findById_Uuid [simp]:
  "categoryRepo_findById db (UuidString u) = Inr (categoryRow db u)"
  by (simp add: categoryRepo_findById_def)

lemma categoryRepo_findById_Other [simp]:
  "categoryRepo_findById db (OtherString s) = Inl (PrismaClientKnownRequestError ''P2023'')"
  by (simp add: categoryRepo_findById_def)

lemma acc_id_setBalanceRow [simp]: "acc_id (setBalanceRow now u v r) = acc_id r"
  by (simp add: setBalanceRow_def)

lemma find_map_setBalanceRow:
  "find (\<lambda>a. acc_id a = j) (map (setBalanceRow now u v) xs)
     = map_option (setBalanceRow now u v) (find (\<lambda>a. acc_id a = j) xs)"
  by (induction xs) simp_all


lemma map_setBalanceRow_absent:
  assumes "accountRow db u = None"
  shows "map (setBalanceRow now u v) (accounts db) = accounts db"
proof -
  from assms have "\<forall>r \<in> set (accounts db). acc_id r \<noteq> u"
    by (simp add: accountRow_def find_None_iff)
  then show ?thesis
    by (intro map_idI) (simp add: setBalanceRow_def)
qed

lemma updateBalance_Other [simp]: "accountRepo_updateBalance now (OtherString s) v db = (None, db)"
  by (simp add: accountRepo_updateBalance_def)

lemma accounts_updateBalance:
  "accounts (snd (accountRepo_updateBalance now (UuidString u) v db))
     = (if fitsDecimal 15 v then map (setBalanceRow now u (toScale2 v)) (accounts db)
        else accounts db)"
  by (cases "accountRow db u")
     (simp_all add: accountRepo_updateBalance_def map_setBalanceRow_absent)

lemma transactions_updateBalance [simp]:
  "transactions (snd (accountRepo_updateBalance now i v db)) = transactions db"
  by (simp add: accountRepo_updateBalance_def split: IdString.splits option.splits)

lemma categories_updateBalance [simp]:
  "categories (snd (accountRepo_updateBalance now i v db)) = categories db"
  by (simp add: accountRepo_updateBalance_def split: IdString.splits option.splits)

lemma accountRow_updateBalance:
  "accountRow (snd (accountRepo_updateBalance now (UuidString u) v db)) j
     = (if fitsDecimal 15 v then map_option (setBalanceRow now u (toScale2 v)) (accountRow db j)
        else accountRow db j)"
  by (simp add: accountRow_def [of "snd _"] accounts_updateBalance find_map_setBalanceRow)
     (simp add: accountRow_def)


lemma transactionRow_updateBalance [simp]:
  "transactionRow (snd (accountRepo_updateBalance now i v db)) j = transactionRow db j"
  by (simp add: transactionRow_def)

lemma categoryRow_updateBalance [simp]:
  "categoryRow (snd (accountRepo_updateBalance now i v db)) j = categoryRow db j"
  by (simp add: categoryRow_def)

lemma accountRow_None_updateBalance [simp]:
  "accountRow (snd (accountRepo_updateBalance now i v db)) j = None \<longleftrightarrow> accountRow db j = None"
  by (cases i) (simp_all add: accountRow_updateBalance)

lemma insertRefusal_updateBalance [simp]:
  "insertRefusal newId now d (snd (accountRepo_updateBalance t i v db))
     = insertRefusal newId now d db"
  by (auto simp: insertRefusal_def split: DateInput.splits option.splits)

lemma balanceOf_transactions_update [simp]:
  "balanceOf (db\<lparr>transactions := ts\<rparr>) j = balanceOf db j"
  by (simp add: balanceOf_def accountRow_def)

lemma accountRow_transactions_update [simp]:
  "accountRow (db\<lparr>transactions := ts\<rparr>) j = accountRow db j"
  by (simp add: accountRow_def)

lemma save_result:
  "transactionRepo_save newId now d db =
     (case insertRefusal newId now d db of
        Some e \<Rightarrow> (Inl e, db)
      | None \<Rightarrow> (Inr (the (createdRow newId now d)),
                 db\<lparr>transactions := transactions db @ [the (createdRow newId now d)]\<rparr>))"
  by (auto simp: transactionRepo_save_def insertRefusal_def
      split: option.splits DateInput.splits)



lemma save_Inl:
  assumes "transactionRepo_save newId now d db = (Inl e, db1)"
  shows "insertRefusal newId now d db = Some e" and "db1 = db"
  using assms by (auto simp: save_result split: option.splits)

lemma find_filter_neq:
  "find (\<lambda>t. tx_id t = u) (filter (\<lambda>t. tx_id t \<noteq> u) xs) = None"
  by (induction xs) simp_all

lemma accounts_delete [simp]:
  "accounts (snd (transactionRepo_delete i db)) = accounts db"
  by (simp add: transactionRepo_delete_def split: IdString.splits)

lemma categories_delete [simp]:
  "categories (snd (transactionRepo_delete i db)) = categories db"
  by (simp add: transactionRepo_delete_def split: IdString.splits)

lemma transactions_delete_found:
  "transactionRow db u = Some t \<Longrightarrow>
     transactions (snd (transactionRepo_delete (UuidString u) db))
       = filter (\<lambda>r. tx_id r \<noteq> u) (transactions db)"
  by (simp add: transactionRepo_delete_def)

lemma getTransaction_Inr:
  "getTransaction db i userId = Inr t \<Longrightarrow>
     \<exists>u. i = UuidString u \<and> transactionRow db u = Some t \<and> tx_userId t = userId"
  by (cases i)
     (auto simp: getTransaction_def transaction_isOwnedBy_def split: option.splits if_splits)

text \<open>The definitions a concrete call is evaluated with.\<close>

lemmas eval_defs =
  createTransaction_def deleteTransaction_def getTransaction_def
  accountRow_def transactionRow_def categoryRow_def
  accountRepo_updateBalance_def setBalanceRow_def
  transactionRepo_save_def insertRefusal_def createdRow_def transactionRepo_delete_def
  Transaction_create_def orNullId_def uuidOf_def
  account_isOwnedBy_def transaction_isOwnedBy_def getBalance_def
  isExpense_def isIncome_def isTransfer_def balanceOf_def
  balanceInvariant_def nonNegative_def
  toScale2_def roundHalfAway_def fitsDecimal_def

lemma dbAfterTransfer_eq:
  "dbAfterTransfer =
     \<lparr> accounts = [accountA\<lparr>acc_balance := 300, acc_updatedAt := 5\<rparr>,
                   accountB\<lparr>acc_balance := 200, acc_updatedAt := 5\<rparr>],
       transactions = [transferRow], categories = [] \<rparr>"
  by (simp add: dbAfterTransfer_def transfer200_def dbAB_def accountA_def accountB_def
      transferRow_def eval_defs)

lemma dbCash1_eq:
  "dbCash1 =
     \<lparr> accounts = [cashAccount\<lparr>acc_balance := 50, acc_updatedAt := 5\<rparr>],
       transactions =
         [\<lparr> tx_id = 101, tx_userId = 1, tx_accountId = 13, tx_categoryId = None,
            tx_type = INCOME, tx_amount = 50, tx_description = ''gift'',
            tx_transactionDate = 5, tx_createdAt = 5, tx_updatedAt = 5,
            tx_toAccountId = None, tx_fromAccountId = None \<rparr>],
       categories = [] \<rparr>"
  by (simp add: dbCash1_def income50_def dbCash_def cashAccount_def eval_defs)

lemma dbCash2_eq:
  "dbCash2 =
     \<lparr> accounts = [cashAccount\<lparr>acc_balance := 0, acc_updatedAt := 6\<rparr>],
       transactions =
         [\<lparr> tx_id = 101, tx_userId = 1, tx_accountId = 13, tx_categoryId = None,
            tx_type = INCOME, tx_amount = 50, tx_description = ''gift'',
            tx_transactionDate = 5, tx_createdAt = 5, tx_updatedAt = 5,
            tx_toAccountId = None, tx_fromAccountId = None \<rparr>,
          \<lparr> tx_id = 102, tx_userId = 1, tx_accountId = 13, tx_categoryId = None,
            tx_type = EXPENSE, tx_amount = 50, tx_description = ''lunch'',
            tx_transactionDate = 6, tx_createdAt = 6, tx_updatedAt = 6,
            tx_toAccountId = None, tx_fromAccountId = None \<rparr>],
       categories = [] \<rparr>"
  by (simp add: dbCash2_def dbCash1_eq expense50_def cashAccount_def eval_defs)

lemma dbMainSpent_eq:
  "dbMainSpent =
     \<lparr> accounts = [mainAccount\<lparr>acc_balance := 990, acc_updatedAt := 5\<rparr>],
       transactions =
         [\<lparr> tx_id = 101, tx_userId = 1, tx_accountId = 10, tx_categoryId = None,
            tx_type = EXPENSE, tx_amount = 1001 / 100, tx_description = ''coffee'',
            tx_transactionDate = 5, tx_createdAt = 5, tx_updatedAt = 5,
            tx_toAccountId = None, tx_fromAccountId = None \<rparr>],
       categories = [] \<rparr>"
  by (simp add: dbMainSpent_def expenseThirdDecimal_def dbMain_def mainAccount_def eval_defs)

lemma dbABMoved_eq:
  "dbABMoved =
     \<lparr> accounts = [accountA\<lparr>acc_balance := 490, acc_updatedAt := 5\<rparr>,
                   accountB\<lparr>acc_balance := 1001 / 100, acc_updatedAt := 5\<rparr>],
       transactions =
         [\<lparr> tx_id = 101, tx_userId = 1, tx_accountId = 11, tx_categoryId = None,
            tx_type = TRANSFER, tx_amount = 1001 / 100, tx_description = ''to B'',
            tx_transactionDate = 5, tx_createdAt = 5, tx_updatedAt = 5,
            tx_toAccountId = Some 12, tx_fromAccountId = Some 11 \<rparr>],
       categories = [] \<rparr>"
  by (simp add: dbABMoved_def transferThirdDecimal_def dbAB_def accountA_def accountB_def
      eval_defs)

section \<open>The non-negative balance of a non-credit account\<close>

text \<open>
  Claim C2, evaluated on the code. The checking account A stands at 300.00 after the
  transfer of the scenario. \<^verbatim>\<open>createTransaction\<close> of an expense of 10000.00 on it is not
  rejected: it returns the created row, and the stored balance of A is -9700.00. The
  guard of \<^verbatim>\<open>Account.updateBalance\<close> is not on this path; \<^verbatim>\<open>updateAccountBalance\<close>,
  which has it, rejects the same balance on the same store.
\<close>

theorem overdraft_expense_accepted:
  "balanceOf dbAfterTransfer 11 = Some 300
   \<and> acc_accountType accountA = CHECKING
   \<and> fst (createTransaction 102 6 1 expense10000 dbAfterTransfer)
       = Inr \<lparr> tx_id = 102, tx_userId = 1, tx_accountId = 11, tx_categoryId = None,
               tx_type = EXPENSE, tx_amount = 10000, tx_description = ''too much'',
               tx_transactionDate = 6, tx_createdAt = 6, tx_updatedAt = 6,
               tx_toAccountId = None, tx_fromAccountId = None \<rparr>
   \<and> balanceOf (snd (createTransaction 102 6 1 expense10000 dbAfterTransfer)) 11
       = Some (- 9700)
   \<and> updateAccountBalance 6 (UuidString 11) 1 (- 9700) dbAfterTransfer
       = (Inl (BadRequestException ''Non-credit accounts cannot have negative balance''),
          dbAfterTransfer)"
  by (simp add: dbAfterTransfer_eq eval_defs expense10000_def accountA_def accountB_def
      transferRow_def updateAccountBalance_def getAccountById_def account_updateBalance_def)

text \<open>
  Claim C1, evaluated on the code. A cash account at 0.00 receives an income of 50.00 and
  spends 50.00; the invariant holds in each of these stores. \<^verbatim>\<open>deleteTransaction\<close> of the
  income then succeeds and leaves the account, which is not a credit account, at -50.00.
\<close>

theorem invariant_broken_by_delete:
  "balanceInvariant dbCash \<and> balanceInvariant dbCash1 \<and> balanceInvariant dbCash2
   \<and> fst (deleteTransaction 7 (UuidString 101) 1 dbCash2) = Inr ()
   \<and> acc_accountType cashAccount \<noteq> CREDIT
   \<and> balanceOf dbCash3 13 = Some (- 50)
   \<and> \<not> balanceInvariant dbCash3"
  by (simp add: dbCash3_def dbCash2_eq dbCash1_eq dbCash_def eval_defs cashAccount_def)

section \<open>Round trip of an expense\<close>

text \<open>
  Claim C5, evaluated on the code. The amount of a request is any number of at least
  0.01. An expense of 10.005 on "Main", at 1000.00, succeeds: the balance column takes
  1000.00 - 10.005 rounded, 990.00, and the amount column 10.005 rounded, 10.01.
  \<^verbatim>\<open>deleteTransaction\<close> of the created row then succeeds, the row is gone, and the balance
  is 990.00 + 10.01 = 1000.01, not the 1000.00 from before the expense.
\<close>

theorem expense_roundtrip_third_decimal:
  "balanceOf dbMain 10 = Some 1000
   \<and> fst (createTransaction 101 5 1 expenseThirdDecimal dbMain)
       = Inr \<lparr> tx_id = 101, tx_userId = 1, tx_accountId = 10, tx_categoryId = None,
               tx_type = EXPENSE, tx_amount = 1001 / 100, tx_description = ''coffee'',
               tx_transactionDate = 5, tx_createdAt = 5, tx_updatedAt = 5,
               tx_toAccountId = None, tx_fromAccountId = None \<rparr>
   \<and> balanceOf dbMainSpent 10 = Some 990
   \<and> fst (deleteTransaction 6 (UuidString 101) 1 dbMainSpent) = Inr ()
   \<and> transactions dbMainRestored = []
   \<and> balanceOf dbMainRestored 10 = Some (100001 / 100)
   \<and> balanceOf dbMainRestored 10 \<noteq> balanceOf dbMain 10"
  by (simp add: dbMainRestored_def dbMainSpent_eq)
     (simp add: dbMain_def mainAccount_def expenseThirdDecimal_def eval_defs)

section \<open>Transfers between two accounts\<close>

text \<open>
  Claim C4, evaluated on the code. A transfer of 10.005 from A, at 500.00, to B, at 0.00,
  succeeds. A goes down by 10.00, to 490.00, and B goes up by 10.01: neither moves by the
  amount and the two do not move by the same. \<^verbatim>\<open>deleteTransaction\<close> of the transfer then
  succeeds and adds the stored amount 10.01 to A: A ends at 500.01, not at its 500.00 from
  before the transfer, and B at 0.00.
\<close>

theorem transfer_third_decimal_asymmetric:
  "balanceOf dbAB 11 = Some 500 \<and> balanceOf dbAB 12 = Some 0
   \<and> acc_userId accountA = acc_userId accountB
   \<and> fst (createTransaction 101 5 1 transferThirdDecimal dbAB)
       = Inr \<lparr> tx_id = 101, tx_userId = 1, tx_accountId = 11, tx_categoryId = None,
               tx_type = TRANSFER, tx_amount = 1001 / 100, tx_description = ''to B'',
               tx_transactionDate = 5, tx_createdAt = 5, tx_updatedAt = 5,
               tx_toAccountId = Some 12, tx_fromAccountId = Some 11 \<rparr>
   \<and> balanceOf dbABMoved 11 = Some 490
   \<and> balanceOf dbABMoved 12 = Some (1001 / 100)
   \<and> fst (deleteTransaction 6 (UuidString 101) 1 dbABMoved) = Inr ()
   \<and> transactions dbABRestored = []
   \<and> balanceOf dbABRestored 11 = Some (50001 / 100)
   \<and> balanceOf dbABRestored 12 = Some 0
   \<and> balanceOf dbABRestored 11 \<noteq> balanceOf dbAB 11"
  by (simp add: dbABRestored_def dbABMoved_eq)
     (simp add: dbAB_def accountA_def accountB_def transferThirdDecimal_def eval_defs)

section \<open>The shape of a createTransaction\<close>

lemma insertRefusal_not_http [simp]:
  "insertRefusal newId now d db \<noteq> Some (ForbiddenException m)"
  "insertRefusal newId now d db \<noteq> Some (BadRequestException m)"
  by (auto simp: insertRefusal_def split: DateInput.splits option.splits)








section \<open>What a createTransaction leaves behind\<close>




section \<open>A transfer from an account to itself\<close>




section \<open>Deleting a transaction whose accounts are gone\<close>

lemma deleteTransaction_shape:
  assumes f: "transactionRow db u = Some t" and o: "tx_userId t = userId"
  shows "deleteTransaction now (UuidString u) userId db
           = (Inr (),
              snd (transactionRepo_delete (UuidString u)
                (case accountRow db (tx_accountId t) of
                   None \<Rightarrow> db
                 | Some account \<Rightarrow>
                     if tx_type t = EXPENSE then
                       snd (accountRepo_updateBalance now (UuidString (tx_accountId t))
                              (acc_balance account + tx_amount t) db)
                     else if tx_type t = INCOME then
                       snd (accountRepo_updateBalance now (UuidString (tx_accountId t))
                              (acc_balance account - tx_amount t) db)
                     else
                       (case tx_toAccountId t of
                          None \<Rightarrow> db
                        | Some toAccountId \<Rightarrow>
                            (case accountRow db toAccountId of
                               None \<Rightarrow> db
                             | Some toAccount \<Rightarrow>
                                 snd (accountRepo_updateBalance now (UuidString toAccountId)
                                        (acc_balance toAccount - tx_amount t)
                                        (snd (accountRepo_updateBalance now
                                                (UuidString (tx_accountId t))
                                                (acc_balance account + tx_amount t) db))))))))"
  using f o
  by (cases "tx_type t")
     (simp_all add: deleteTransaction_def getTransaction_def transaction_isOwnedBy_def
        isExpense_def isIncome_def isTransfer_def getBalance_def Let_def
        split: option.splits)

text \<open>
  Claim C8. Once \<^verbatim>\<open>deleteTransaction\<close> has found the caller's transaction, it succeeds
  and the row is deleted in every case. When the primary account no longer exists no
  balance is written. For a transfer whose destination is unset or no longer exists no
  balance is written either, the source is not credited; when source and destination both
  exist, the two balance writes are made, the source's with its balance plus the amount
  and then the destination's with its balance minus the amount: the source is credited
  and the destination debited, whenever the new balances fit the column.
\<close>

theorem deleteTransaction_missing_accounts:
  assumes g: "getTransaction db i userId = Inr t"
  shows "fst (deleteTransaction now i userId db) = Inr ()
       \<and> transactions (snd (deleteTransaction now i userId db))
           = filter (\<lambda>r. tx_id r \<noteq> tx_id t) (transactions db)
       \<and> transactionRepo_findById (snd (deleteTransaction now i userId db)) i = Inr None
       \<and> (accountRow db (tx_accountId t) = None
            \<longrightarrow> accounts (snd (deleteTransaction now i userId db)) = accounts db)
       \<and> (tx_type t = TRANSFER
            \<longrightarrow> (\<forall>Y. tx_toAccountId t = Some Y \<longrightarrow> accountRow db Y = None)
            \<longrightarrow> accounts (snd (deleteTransaction now i userId db)) = accounts db)
       \<and> (tx_type t = TRANSFER
            \<longrightarrow> (\<forall>a Y b. accountRow db (tx_accountId t) = Some a
                   \<longrightarrow> tx_toAccountId t = Some Y
                   \<longrightarrow> accountRow db Y = Some b
                   \<longrightarrow> accounts (snd (deleteTransaction now i userId db))
                        = accounts
                            (snd (accountRepo_updateBalance now (UuidString Y)
                                    (acc_balance b - tx_amount t)
                                    (snd (accountRepo_updateBalance now
                                            (UuidString (tx_accountId t))
                                            (acc_balance a + tx_amount t) db))))
                     \<and> (fitsDecimal 15 (acc_balance a + tx_amount t)
                          \<longrightarrow> fitsDecimal 15 (acc_balance b - tx_amount t)
                          \<longrightarrow> accounts (snd (deleteTransaction now i userId db))
                               = map (setBalanceRow now Y
                                        (toScale2 (acc_balance b - tx_amount t)))
                                   (map (setBalanceRow now (tx_accountId t)
                                           (toScale2 (acc_balance a + tx_amount t)))
                                      (accounts db)))))"
proof -
  from getTransaction_Inr [OF g] obtain u where i: "i = UuidString u"
    and f: "transactionRow db u = Some t" and o: "tx_userId t = userId"
    by blast
  from f have u: "tx_id t = u"
    by (auto simp: transactionRow_def find_Some_iff)
  define w where "w = (case accountRow db (tx_accountId t) of
                   None \<Rightarrow> db
                 | Some account \<Rightarrow>
                     if tx_type t = EXPENSE then
                       snd (accountRepo_updateBalance now (UuidString (tx_accountId t))
                              (acc_balance account + tx_amount t) db)
                     else if tx_type t = INCOME then
                       snd (accountRepo_updateBalance now (UuidString (tx_accountId t))
                              (acc_balance account - tx_amount t) db)
                     else
                       (case tx_toAccountId t of
                          None \<Rightarrow> db
                        | Some toAccountId \<Rightarrow>
                            (case accountRow db toAccountId of
                               None \<Rightarrow> db
                             | Some toAccount \<Rightarrow>
                                 snd (accountRepo_updateBalance now (UuidString toAccountId)
                                        (acc_balance toAccount - tx_amount t)
                                        (snd (accountRepo_updateBalance now
                                                (UuidString (tx_accountId t))
                                                (acc_balance account + tx_amount t) db))))))"
  have d: "deleteTransaction now i userId db
             = (Inr (), snd (transactionRepo_delete (UuidString u) w))"
    unfolding i w_def by (rule deleteTransaction_shape [OF f o])
  have tw: "transactions w = transactions db"
    by (simp add: w_def split: option.splits)
  then have fw: "transactionRow w u = Some t"
    using f by (simp add: transactionRow_def)
  have tr: "transactions (snd (deleteTransaction now i userId db))
           = filter (\<lambda>r. tx_id r \<noteq> tx_id t) (transactions db)"
    by (simp add: d transactions_delete_found [OF fw] tw u)
  have gone: "transactionRepo_findById (snd (deleteTransaction now i userId db)) i = Inr None"
    by (simp add: i transactionRow_def tr [unfolded i] u find_filter_neq)
  have acc: "accounts (snd (deleteTransaction now i userId db)) = accounts w"
    by (simp add: d)
  have c1: "accounts w = accounts db" if "accountRow db (tx_accountId t) = None"
    using that by (simp add: w_def)
  have c2: "accounts w = accounts db"
    if "tx_type t = TRANSFER"
      and "\<forall>Y. tx_toAccountId t = Some Y \<longrightarrow> accountRow db Y = None"
    using that by (simp add: w_def split: option.splits)
  have c3: "accounts w
              = accounts (snd (accountRepo_updateBalance now (UuidString Y)
                                 (acc_balance b - tx_amount t)
                                 (snd (accountRepo_updateBalance now
                                         (UuidString (tx_accountId t))
                                         (acc_balance a + tx_amount t) db))))"
    if "tx_type t = TRANSFER" and "accountRow db (tx_accountId t) = Some a"
      and "tx_toAccountId t = Some Y" and "accountRow db Y = Some b"
    for a Y b
    using that by (simp add: w_def)
  have c4: "accounts w
              = map (setBalanceRow now Y (toScale2 (acc_balance b - tx_amount t)))
                  (map (setBalanceRow now (tx_accountId t)
                          (toScale2 (acc_balance a + tx_amount t)))
                     (accounts db))"
    if "tx_type t = TRANSFER" and "accountRow db (tx_accountId t) = Some a"
      and "tx_toAccountId t = Some Y" and "accountRow db Y = Some b"
      and "fitsDecimal 15 (acc_balance a + tx_amount t)"
      and "fitsDecimal 15 (acc_balance b - tx_amount t)"
    for a Y b
    using that by (simp add: c3 accounts_updateBalance)
  from d tr gone acc c1 c2 c3 c4 show ?thesis
    by simp
qed

theorem deleteTransaction_missing_accounts_witness:
  "getTransaction dbSourceGone (UuidString 101) 1 = Inr transferRow
   \<and> accountRow dbSourceGone (tx_accountId transferRow) = None
   \<and> fst (deleteTransaction 9 (UuidString 101) 1 dbSourceGone) = Inr ()
   \<and> accounts (snd (deleteTransaction 9 (UuidString 101) 1 dbSourceGone)) = [accountB]
   \<and> transactions (snd (deleteTransaction 9 (UuidString 101) 1 dbSourceGone)) = []
   \<and> getTransaction dbDestinationGone (UuidString 101) 1 = Inr transferRow
   \<and> tx_type transferRow = TRANSFER
   \<and> tx_toAccountId transferRow = Some 12
   \<and> accountRow dbDestinationGone 12 = None
   \<and> fst (deleteTransaction 9 (UuidString 101) 1 dbDestinationGone) = Inr ()
   \<and> accounts (snd (deleteTransaction 9 (UuidString 101) 1 dbDestinationGone)) = [accountA]
   \<and> transactions (snd (deleteTransaction 9 (UuidString 101) 1 dbDestinationGone)) = []"
proof -
  have g1: "getTransaction dbSourceGone (UuidString 101) 1 = Inr transferRow"
    and g2: "getTransaction dbDestinationGone (UuidString 101) 1 = Inr transferRow"
    by (simp_all add: getTransaction_def transactionRow_def dbSourceGone_def
        dbDestinationGone_def transferRow_def transaction_isOwnedBy_def)
  have n1: "accountRow dbSourceGone (tx_accountId transferRow) = None"
    by (simp add: accountRow_def dbSourceGone_def transferRow_def accountB_def)
  have ty: "tx_type transferRow = TRANSFER"
    and o: "tx_toAccountId transferRow = Some 12"
    by (simp_all add: transferRow_def)
  have n2: "accountRow dbDestinationGone 12 = None"
    by (simp add: accountRow_def dbDestinationGone_def accountA_def)
  have t: "accounts dbSourceGone = [accountB]" "accounts dbDestinationGone = [accountA]"
    "filter (\<lambda>r. tx_id r \<noteq> tx_id transferRow) (transactions dbSourceGone) = []"
    "filter (\<lambda>r. tx_id r \<noteq> tx_id transferRow) (transactions dbDestinationGone) = []"
    by (simp_all add: dbSourceGone_def dbDestinationGone_def)
  from deleteTransaction_missing_accounts [OF g1, of 9] n1
  have r1: "fst (deleteTransaction 9 (UuidString 101) 1 dbSourceGone) = Inr ()"
    "accounts (snd (deleteTransaction 9 (UuidString 101) 1 dbSourceGone)) = [accountB]"
    "transactions (snd (deleteTransaction 9 (UuidString 101) 1 dbSourceGone)) = []"
    by (simp_all add: t)
  from deleteTransaction_missing_accounts [OF g2, of 9] ty o n2
  have r2: "fst (deleteTransaction 9 (UuidString 101) 1 dbDestinationGone) = Inr ()"
    "accounts (snd (deleteTransaction 9 (UuidString 101) 1 dbDestinationGone)) = [accountA]"
    "transactions (snd (deleteTransaction 9 (UuidString 101) 1 dbDestinationGone)) = []"
    by (simp_all add: t)
  from g1 n1 r1 g2 ty o n2 r2 show ?thesis
    by simp
qed

section \<open>The frame of updateTransaction\<close>

lemma patchOnly_patchRow: "patchOnly (UuidString u) r (patchRow now u c d td r)"
  by (simp add: patchOnly_def patchRow_def)

lemma patchOnly_refl: "patchOnly i r r"
  by (simp add: patchOnly_def)

lemma update_result:
  "transactionRepo_update now i d db = (x, db') \<Longrightarrow>
     db' = db
     \<or> (\<exists>u c td. i = UuidString u
          \<and> db' = db\<lparr>transactions := map (patchRow now u c (upd_description d) td)
                                       (transactions db)\<rparr>)"
  by (auto simp: transactionRepo_update_def split: IdString.splits option.splits if_splits)

lemma updateTransaction_result:
  assumes u: "updateTransaction now i userId dto db = (r, db')"
  shows "(\<exists>e. getTransaction db i userId = Inl e \<and> r = Inl e \<and> db' = db)
       \<or> (\<exists>t. getTransaction db i userId = Inr t
            \<and> (db' = db
               \<or> (\<exists>u c td. i = UuidString u
                    \<and> db' = db\<lparr>transactions := map (patchRow now u c (upd_description dto) td)
                                                 (transactions db)\<rparr>)))"
proof (cases "getTransaction db i userId")
  case (Inl e)
  with u have "r = Inl e" "db' = db"
    by (auto simp: updateTransaction_def)
  with Inl show ?thesis
    by blast
next
  case (Inr t)
  obtain x d where x: "transactionRepo_update now i dto db = (x, d)"
    by (cases "transactionRepo_update now i dto db")
  with u Inr have "db' = d"
    by (auto simp: updateTransaction_def split: option.splits)
  with update_result [OF x] Inr show ?thesis
    by simp
qed

lemma getTransaction_accounts [simp]:
  "getTransaction (db\<lparr>accounts := other\<rparr>) i userId = getTransaction db i userId"
  by (cases i) (simp_all add: getTransaction_def transactionRow_def)

lemma update_accounts:
  "transactionRepo_update now i d (db\<lparr>accounts := other\<rparr>)
     = (fst (transactionRepo_update now i d db),
        (snd (transactionRepo_update now i d db))\<lparr>accounts := other\<rparr>)"
  by (auto simp: transactionRepo_update_def transactionRow_def categoryRow_def
      split: IdString.splits option.splits)

lemma updateTransaction_accounts_irrelevant:
  "updateTransaction now i userId dto (db\<lparr>accounts := other\<rparr>)
     = (fst (updateTransaction now i userId dto db),
        (snd (updateTransaction now i userId dto db))\<lparr>accounts := other\<rparr>)"
proof (cases "getTransaction db i userId")
  case (Inl e)
  then show ?thesis
    by (simp add: updateTransaction_def)
next
  case (Inr t)
  obtain x d where x: "transactionRepo_update now i dto db = (x, d)"
    by (cases "transactionRepo_update now i dto db")
  with Inr show ?thesis
    by (cases x) (simp_all add: updateTransaction_def update_accounts)
qed

text \<open>
  Claim C9. \<^verbatim>\<open>updateTransaction\<close> changes nothing when the ownership check of
  \<^verbatim>\<open>getTransaction\<close> fails. Otherwise every row but the target is what it was, and the
  target keeps its id, owner, amount, type, \<^verbatim>\<open>accountId\<close>, \<^verbatim>\<open>toAccountId\<close>,
  \<^verbatim>\<open>fromAccountId\<close> and creation stamp: only \<^verbatim>\<open>categoryId\<close>, \<^verbatim>\<open>description\<close>,
  \<^verbatim>\<open>transactionDate\<close> (and the audit stamp \<^verbatim>\<open>updatedAt\<close>) can differ. The accounts are
  neither written nor read: with any other accounts table the call returns the same
  result and leaves that table as it is.
\<close>

theorem updateTransaction_frame:
  assumes u: "updateTransaction now i userId dto db = (r, db')"
  shows "list_all2 (patchOnly i) (transactions db) (transactions db')
       \<and> accounts db' = accounts db
       \<and> categories db' = categories db
       \<and> (\<forall>other. updateTransaction now i userId dto (db\<lparr>accounts := other\<rparr>)
                     = (r, db'\<lparr>accounts := other\<rparr>))
       \<and> (\<forall>e. getTransaction db i userId = Inl e \<longrightarrow> r = Inl e \<and> db' = db)"
proof -
  have rows: "list_all2 (patchOnly (UuidString v)) ts (map (patchRow now v c d td) ts)"
    for ts v c d td
    by (simp add: list_all2_conv_all_nth patchOnly_patchRow)
  have same: "list_all2 (patchOnly i) ts ts" for ts
    by (simp add: list_all2_conv_all_nth patchOnly_refl)
  from updateTransaction_result [OF u] have
    "list_all2 (patchOnly i) (transactions db) (transactions db')
       \<and> accounts db' = accounts db \<and> categories db' = categories db
       \<and> (\<forall>e. getTransaction db i userId = Inl e \<longrightarrow> r = Inl e \<and> db' = db)"
    using rows same by auto
  moreover have "updateTransaction now i userId dto (db\<lparr>accounts := other\<rparr>)
                     = (r, db'\<lparr>accounts := other\<rparr>)" for other
    using u by (simp add: updateTransaction_accounts_irrelevant)
  ultimately show ?thesis
    by blast
qed

theorem updateTransaction_frame_witness:
  "updateTransaction 9 (UuidString 101) 1 renamePatch dbAfterTransfer
     = (Inr (transferRow\<lparr>tx_description := ''renamed'', tx_updatedAt := 9\<rparr>),
        dbAfterTransfer\<lparr>transactions :=
          [transferRow\<lparr>tx_description := ''renamed'', tx_updatedAt := 9\<rparr>]\<rparr>)
   \<and> list_all2 (patchOnly (UuidString 101)) (transactions dbAfterTransfer)
         [transferRow\<lparr>tx_description := ''renamed'', tx_updatedAt := 9\<rparr>]
   \<and> tx_amount (transferRow\<lparr>tx_description := ''renamed'', tx_updatedAt := 9\<rparr>) = 200
   \<and> map acc_balance (accounts dbAfterTransfer) = [300, 200]
   \<and> (\<forall>other. updateTransaction 9 (UuidString 101) 1 renamePatch
                 (dbAfterTransfer\<lparr>accounts := other\<rparr>)
          = (Inr (transferRow\<lparr>tx_description := ''renamed'', tx_updatedAt := 9\<rparr>),
             dbAfterTransfer\<lparr>transactions :=
               [transferRow\<lparr>tx_description := ''renamed'', tx_updatedAt := 9\<rparr>],
               accounts := other\<rparr>))"
proof -
  have ev: "updateTransaction 9 (UuidString 101) 1 renamePatch dbAfterTransfer
     = (Inr (transferRow\<lparr>tx_description := ''renamed'', tx_updatedAt := 9\<rparr>),
        dbAfterTransfer\<lparr>transactions :=
          [transferRow\<lparr>tx_description := ''renamed'', tx_updatedAt := 9\<rparr>]\<rparr>)"
    by (simp add: dbAfterTransfer_eq)
       (simp add: updateTransaction_def getTransaction_def transactionRow_def
          transaction_isOwnedBy_def transactionRepo_update_def patchRow_def renamePatch_def
          transferRow_def uuidOf_def dateOf_def)
  have b: "map acc_balance (accounts dbAfterTransfer) = [300, 200]"
    by (simp add: dbAfterTransfer_eq)
  have am: "tx_amount transferRow = 200"
    by (simp add: transferRow_def)
  from updateTransaction_frame [OF ev] ev b show ?thesis
    by (simp add: am)
qed

section \<open>Existence and ownership\<close>







lemma exists_account_not_forbidden [simp]:
  "accountRepo_existsByUserIdAndName db userId name (Some (UuidString a))
     \<noteq> Inl (ForbiddenException m)"
  by (simp add: accountRepo_existsByUserIdAndName_def orNullId_def)

lemma exists_category_not_forbidden [simp]:
  "categoryRepo_existsByUserIdAndName db userId name (Some (UuidString c))
     \<noteq> Inl (ForbiddenException m)"
  by (simp add: categoryRepo_existsByUserIdAndName_def orNullId_def)















section \<open>The calendar\<close>


















section \<open>Monthly totals\<close>




end
